theory Spec2Isabelle
  imports Main "HOL-Library.Char_ord" "HOL-Library.List_Lexorder"
begin

section \<open>Python values\<close>

text \<open>
  The codec of \<^verbatim>\<open>aws/utils.py\<close> works on untyped Python data: both the plain
  dictionaries it is given and the tagged dictionaries it produces are values of
  \<^verbatim>\<open>Dict[str, Any]\<close>, and list elements that are not dictionaries travel from
  one side to the other untouched. One datatype therefore holds both sides.

  Strings are lists of 8-bit characters (code points below 256). A dictionary is the
  list of its items in insertion order; a Python dictionary holds every key once.
  The type parameter \<open>'f\<close> stands for Python's \<^verbatim>\<open>float\<close>: its printing and parsing are
  builtins of the interpreter and enter the model as parameters (\<open>fstr\<close> for
  \<^verbatim>\<open>str(x)\<close>, \<open>fparse\<close> for \<^verbatim>\<open>float(s)\<close>, \<open>None\<close> when it raises ValueError).
  \<open>PContainer c vs\<close> is a container of another class \<open>c\<close> (a tuple, a set) with the
  elements \<open>vs\<close>: it answers \<^verbatim>\<open>in\<close> and can be iterated, and it is not indexed by
  strings. \<open>PObj c\<close> is an object of any other class \<open>c\<close>, opaque to the codec: it is
  no container and has no string methods.
\<close>

datatype 'f pyval =
    PStr string
  | PInt int
  | PFloat 'f
  | PBool bool
  | PNone
  | PDict "(string \<times> 'f pyval) list"
  | PList "'f pyval list"
  | PContainer string "'f pyval list"
  | PObj string

type_synonym 'f pydict = "(string \<times> 'f pyval) list"

text \<open>
  Exceptions, as values. The first two are the TypeErrors the codec raises itself, with
  the data their messages carry: the class of the value and the key for
  \<^verbatim>\<open>serialize\<close>, the key for \<^verbatim>\<open>deserialize\<close>. The next four are raised by the
  interpreter. The last is the ValueError of \<^verbatim>\<open>add_message\<close>, with the index.
\<close>

datatype error =
    UnsupportedType string string
  | UnsupportedTag string
  | TypeError
  | KeyError
  | AttributeError
  | ValueError
  | IndexOutOfBounds int

subsection \<open>isinstance, type and str\<close>

text \<open>\<^verbatim>\<open>bool\<close> is a subclass of \<^verbatim>\<open>int\<close>: \<^verbatim>\<open>isinstance(True, int)\<close> holds.\<close>

fun isinstance_str :: "'f pyval \<Rightarrow> bool" where
  "isinstance_str (PStr _) = True"
| "isinstance_str _ = False"

fun isinstance_int :: "'f pyval \<Rightarrow> bool" where
  "isinstance_int (PInt _) = True"
| "isinstance_int (PBool _) = True"
| "isinstance_int _ = False"

fun isinstance_float :: "'f pyval \<Rightarrow> bool" where
  "isinstance_float (PFloat _) = True"
| "isinstance_float _ = False"

fun isinstance_bool :: "'f pyval \<Rightarrow> bool" where
  "isinstance_bool (PBool _) = True"
| "isinstance_bool _ = False"

fun isinstance_dict :: "'f pyval \<Rightarrow> bool" where
  "isinstance_dict (PDict _) = True"
| "isinstance_dict _ = False"

fun isinstance_list :: "'f pyval \<Rightarrow> bool" where
  "isinstance_list (PList _) = True"
| "isinstance_list _ = False"

fun is_None :: "'f pyval \<Rightarrow> bool" where
  "is_None PNone = True"
| "is_None _ = False"

fun dict_items :: "'f pyval \<Rightarrow> 'f pydict" where
  "dict_items (PDict d) = d"

fun list_items :: "'f pyval \<Rightarrow> 'f pyval list" where
  "list_items (PList vs) = vs"

fun type_name :: "'f pyval \<Rightarrow> string" where
  "type_name (PStr _) = ''str''"
| "type_name (PInt _) = ''int''"
| "type_name (PFloat _) = ''float''"
| "type_name (PBool _) = ''bool''"
| "type_name PNone = ''NoneType''"
| "type_name (PDict _) = ''dict''"
| "type_name (PList _) = ''list''"
| "type_name (PContainer c _) = c"
| "type_name (PObj c) = c"

definition digit_char :: "nat \<Rightarrow> char" where
  "digit_char d = char_of (48 + d)"

fun digits :: "nat \<Rightarrow> string" where
  "digits n = (if n < 10 then [digit_char n] else digits (n div 10) @ [digit_char (n mod 10)])"

declare digits.simps [simp del]

definition str_int :: "int \<Rightarrow> string" where
  "str_int i = (if i < 0 then CHR ''-'' # digits (nat (- i)) else digits (nat i))"

text \<open>
  \<^verbatim>\<open>str(value)\<close> for the values \<^verbatim>\<open>serialize\<close> applies it to, the instances of
  \<^verbatim>\<open>int\<close> and \<^verbatim>\<open>float\<close>. Conversions of unbounded length are assumed (no
  digit limit on \<^verbatim>\<open>str\<close> and \<^verbatim>\<open>int\<close>).
\<close>

fun py_str :: "('f \<Rightarrow> string) \<Rightarrow> 'f pyval \<Rightarrow> string" where
  "py_str fstr (PInt i) = str_int i"
| "py_str fstr (PBool b) = (if b then ''True'' else ''False'')"
| "py_str fstr (PFloat x) = fstr x"
| "py_str fstr (PStr s) = s"
| "py_str fstr PNone = ''None''"

section \<open>The codec\<close>

subsection \<open>serialize\<close>

text \<open>
  The loop over \<^verbatim>\<open>data.items()\<close> is the recursion over the list of items; the tests
  stand in the order of the source. Each key occurs once, so the assignment
  \<^verbatim>\<open>serialized_data[key] = ...\<close> adds a new item behind those already there. An
  exception leaves the loop at once: the first item that fails decides the error.
  \<open>serialize_elems\<close> is the list comprehension of the \<^verbatim>\<open>list\<close> branch.
\<close>

lemma size_dict_items:
  "isinstance_dict v \<Longrightarrow> size_list (size_prod (\<lambda>_. 0) size) (dict_items v) < size v"
  by (cases v) simp_all

lemma size_list_items:
  "isinstance_list v \<Longrightarrow> size_list size (list_items v) < size v"
  by (cases v) simp_all

function serialize :: "('f \<Rightarrow> string) \<Rightarrow> 'f pydict \<Rightarrow> error + 'f pydict"
  and serialize_elems :: "('f \<Rightarrow> string) \<Rightarrow> 'f pyval list \<Rightarrow> error + 'f pyval list"
where
  "serialize fstr [] = Inr []"
| "serialize fstr ((key, value) # rest) =
     (case
        (if isinstance_str value then Inr (PDict [(''S'', value)])
         else if isinstance_int value then Inr (PDict [(''N'', PStr (py_str fstr value))])
         else if isinstance_float value then Inr (PDict [(''N'', PStr (py_str fstr value))])
         else if isinstance_bool value then Inr (PDict [(''BOOL'', value)])
         else if isinstance_dict value then
           (case serialize fstr (dict_items value) of
              Inl e \<Rightarrow> Inl e
            | Inr m \<Rightarrow> Inr (PDict [(''M'', PDict m)]))
         else if isinstance_list value then
           (case serialize_elems fstr (list_items value) of
              Inl e \<Rightarrow> Inl e
            | Inr l \<Rightarrow> Inr (PDict [(''L'', PList l)]))
         else if is_None value then Inr (PDict [(''NULL'', PBool True)])
         else Inl (UnsupportedType (type_name value) key))
      of
        Inl e \<Rightarrow> Inl e
      | Inr tagged \<Rightarrow>
          (case serialize fstr rest of
             Inl e \<Rightarrow> Inl e
           | Inr serialized_data \<Rightarrow> Inr ((key, tagged) # serialized_data)))"
| "serialize_elems fstr [] = Inr []"
| "serialize_elems fstr (v # vs) =
     (case
        (if isinstance_dict v then
           (case serialize fstr (dict_items v) of Inl e \<Rightarrow> Inl e | Inr m \<Rightarrow> Inr (PDict m))
         else Inr v)
      of
        Inl e \<Rightarrow> Inl e
      | Inr w \<Rightarrow>
          (case serialize_elems fstr vs of
             Inl e \<Rightarrow> Inl e
           | Inr ws \<Rightarrow> Inr (w # ws)))"
  by pat_completeness auto

termination
  apply (relation "measure (\<lambda>a. case a of
            Inl (_, d) \<Rightarrow> size_list (size_prod (\<lambda>_. 0) size) d
          | Inr (_, vs) \<Rightarrow> size_list size vs)")
       apply simp
      apply (simp, frule size_dict_items, simp)
     apply (simp, frule size_list_items, simp)
    apply simp
   apply (simp, frule size_dict_items, simp)
  apply simp
  done

subsection \<open>deserialize\<close>

text \<open>
  \<^verbatim>\<open>tag in value\<close> and \<^verbatim>\<open>value[tag]\<close> for a string \<open>tag\<close>. On a dictionary they
  test and read a key. On a string \<^verbatim>\<open>in\<close> is the substring test, on a list and on
  any other container the membership test, and indexing these with a string raises
  TypeError. A value that is no container makes \<^verbatim>\<open>in\<close> raise TypeError, at the first
  test already.
\<close>

fun is_substring :: "string \<Rightarrow> string \<Rightarrow> bool" where
  "is_substring t [] = (t = [])"
| "is_substring t (c # s) = (take (length t) (c # s) = t \<or> is_substring t s)"

fun is_container :: "'f pyval \<Rightarrow> bool" where
  "is_container (PDict _) = True"
| "is_container (PStr _) = True"
| "is_container (PList _) = True"
| "is_container (PContainer _ _) = True"
| "is_container _ = False"

fun py_in :: "string \<Rightarrow> 'f pyval \<Rightarrow> bool" where
  "py_in t (PDict d) = (t \<in> set (map fst d))"
| "py_in t (PStr s) = is_substring t s"
| "py_in t (PList vs) = (PStr t \<in> set vs)"
| "py_in t (PContainer c vs) = (PStr t \<in> set vs)"
| "py_in t _ = False"

fun py_getitem :: "'f pyval \<Rightarrow> string \<Rightarrow> error + 'f pyval" where
  "py_getitem (PDict d) t = (case map_of d t of None \<Rightarrow> Inl KeyError | Some v \<Rightarrow> Inr v)"
| "py_getitem _ t = Inl TypeError"

text \<open>
  \<^verbatim>\<open>str.isdigit\<close>: the string is not empty and all its characters are digits. Below
  code point 256 these are \<^verbatim>\<open>0\<close> to \<^verbatim>\<open>9\<close> and the superscripts two, three and
  one (178, 179, 185). \<^verbatim>\<open>int(s)\<close>, for the strings that pass this test, reads decimal
  digits and raises ValueError on a superscript.
\<close>

definition isdigit_char :: "char \<Rightarrow> bool" where
  "isdigit_char c =
     (let n = (of_char c :: nat) in (48 \<le> n \<and> n \<le> 57) \<or> n = 178 \<or> n = 179 \<or> n = 185)"

definition isdigit :: "string \<Rightarrow> bool" where
  "isdigit s = (s \<noteq> [] \<and> list_all isdigit_char s)"

definition isdecimal_char :: "char \<Rightarrow> bool" where
  "isdecimal_char c = (let n = (of_char c :: nat) in 48 \<le> n \<and> n \<le> 57)"

definition digits_value :: "string \<Rightarrow> nat" where
  "digits_value s = foldl (\<lambda>a c. 10 * a + (of_char c - 48)) 0 s"

definition py_int :: "string \<Rightarrow> error + int" where
  "py_int s =
     (if s \<noteq> [] \<and> list_all isdecimal_char s then Inr (int (digits_value s))
      else Inl ValueError)"

definition py_float :: "(string \<Rightarrow> 'f option) \<Rightarrow> string \<Rightarrow> error + 'f" where
  "py_float fparse s = (case fparse s of None \<Rightarrow> Inl ValueError | Some x \<Rightarrow> Inr x)"

text \<open>
  The value under \<^verbatim>\<open>"N"\<close>: \<^verbatim>\<open>int(t) if t.isdigit() else float(t)\<close>; a value that is
  no string has no \<^verbatim>\<open>isdigit\<close>.
\<close>

fun parse_number :: "(string \<Rightarrow> 'f option) \<Rightarrow> 'f pyval \<Rightarrow> error + 'f pyval" where
  "parse_number fparse (PStr t) =
     (if isdigit t then (case py_int t of Inl e \<Rightarrow> Inl e | Inr i \<Rightarrow> Inr (PInt i))
      else (case py_float fparse t of Inl e \<Rightarrow> Inl e | Inr x \<Rightarrow> Inr (PFloat x)))"
| "parse_number fparse _ = Inl AttributeError"

lemma size_py_getitem:
  "py_getitem v t = Inr w \<Longrightarrow> size w < size v"
proof (cases v)
  case (PDict d)
  have "map_of d t = Some w \<Longrightarrow> size w < Suc (size_list (size_prod (\<lambda>_. 0) size) d)"
    by (induction d) (auto split: if_splits)
  with PDict show "py_getitem v t = Inr w \<Longrightarrow> size w < size v"
    by (auto split: option.splits)
qed simp_all

text \<open>
  The loop of \<^verbatim>\<open>deserialize\<close>, with the tests in the order of the source.
  \<^verbatim>\<open>deserialize(value["M"])\<close> calls \<^verbatim>\<open>items()\<close>, which only a dictionary has.
  The comprehension over \<^verbatim>\<open>value["L"]\<close> runs over any iterable: a list or another
  container gives its elements (\<open>deserialize_elems\<close>), a string its characters and a
  dictionary its keys, none of which is a dictionary, so they are passed on as they are.
\<close>

function deserialize :: "(string \<Rightarrow> 'f option) \<Rightarrow> 'f pydict \<Rightarrow> error + 'f pydict"
  and deserialize_elems :: "(string \<Rightarrow> 'f option) \<Rightarrow> 'f pyval list \<Rightarrow> error + 'f pyval list"
where
  "deserialize fparse [] = Inr []"
| "deserialize fparse ((key, value) # rest) =
     (case
        (if \<not> is_container value then Inl TypeError
         else if py_in ''S'' value then py_getitem value ''S''
         else if py_in ''N'' value then
           (case py_getitem value ''N'' of Inl e \<Rightarrow> Inl e | Inr t \<Rightarrow> parse_number fparse t)
         else if py_in ''BOOL'' value then py_getitem value ''BOOL''
         else if py_in ''M'' value then
           (case py_getitem value ''M'' of
              Inl e \<Rightarrow> Inl e
            | Inr (PDict m) \<Rightarrow>
                (case deserialize fparse m of Inl e \<Rightarrow> Inl e | Inr d \<Rightarrow> Inr (PDict d))
            | Inr _ \<Rightarrow> Inl AttributeError)
         else if py_in ''L'' value then
           (case py_getitem value ''L'' of
              Inl e \<Rightarrow> Inl e
            | Inr (PList vs) \<Rightarrow>
                (case deserialize_elems fparse vs of Inl e \<Rightarrow> Inl e | Inr l \<Rightarrow> Inr (PList l))
            | Inr (PContainer c vs) \<Rightarrow>
                (case deserialize_elems fparse vs of Inl e \<Rightarrow> Inl e | Inr l \<Rightarrow> Inr (PList l))
            | Inr (PStr s) \<Rightarrow> Inr (PList (map (\<lambda>c. PStr [c]) s))
            | Inr (PDict m) \<Rightarrow> Inr (PList (map (\<lambda>kv. PStr (fst kv)) m))
            | Inr _ \<Rightarrow> Inl TypeError)
         else if py_in ''NULL'' value then Inr PNone
         else Inl (UnsupportedTag key))
      of
        Inl e \<Rightarrow> Inl e
      | Inr plain \<Rightarrow>
          (case deserialize fparse rest of
             Inl e \<Rightarrow> Inl e
           | Inr deserialized_data \<Rightarrow> Inr ((key, plain) # deserialized_data)))"
| "deserialize_elems fparse [] = Inr []"
| "deserialize_elems fparse (v # vs) =
     (case
        (if isinstance_dict v then
           (case deserialize fparse (dict_items v) of Inl e \<Rightarrow> Inl e | Inr d \<Rightarrow> Inr (PDict d))
         else Inr v)
      of
        Inl e \<Rightarrow> Inl e
      | Inr w \<Rightarrow>
          (case deserialize_elems fparse vs of
             Inl e \<Rightarrow> Inl e
           | Inr ws \<Rightarrow> Inr (w # ws)))"
  by pat_completeness auto
termination
  apply (relation "measure (\<lambda>a. case a of
            Inl (_, d) \<Rightarrow> size_list (size_prod (\<lambda>_. 0) size) d
          | Inr (_, vs) \<Rightarrow> size_list size vs)")
        apply simp
       apply (simp, drule size_py_getitem, simp)
      apply (simp, drule size_py_getitem, simp)
     apply (simp, drule size_py_getitem, simp)
    apply simp
   apply (simp, frule size_dict_items, simp)
  apply simp
  done

section \<open>The chat store\<close>

subsection \<open>The table\<close>

text \<open>
  Modelled from the spec: the backing table is an external collaborator, reached through
  a client library that is not part of this repository. The spec gives its interface:
  a query by partition key that returns the items ordered by sort key ascending, a put
  that inserts or overwrites the item under its key, a delete that is silent when the
  item is absent, and a batch of puts and deletes in one call. Store faults are outside
  the model, and an item comes back as it was put. The sort key is compared as a
  string, character by character.

  An item is the dictionary \<^verbatim>\<open>{PartitionKey: key, "RowKey": row_key, "msg": payload}\<close>
  that the adapter writes; the table is the list of its items, one for each pair of
  partition key and row key.
\<close>

datatype 'f item = Item (partition_key: string) (row_key: string) (msg: "'f pydict")

type_synonym 'f table = "'f item list"

definition has_key :: "string \<Rightarrow> string \<Rightarrow> 'f item \<Rightarrow> bool" where
  "has_key pk rk it = (partition_key it = pk \<and> row_key it = rk)"

definition query :: "'f table \<Rightarrow> string \<Rightarrow> 'f item list" where
  "query tbl key = sort_key row_key (filter (\<lambda>it. partition_key it = key) tbl)"

definition delete_item :: "'f table \<Rightarrow> string \<Rightarrow> string \<Rightarrow> 'f table" where
  "delete_item tbl pk rk = filter (\<lambda>it. \<not> has_key pk rk it) tbl"

definition put_item :: "'f table \<Rightarrow> 'f item \<Rightarrow> 'f table" where
  "put_item tbl it = it # delete_item tbl (partition_key it) (row_key it)"

definition get_item :: "'f table \<Rightarrow> string \<Rightarrow> string \<Rightarrow> 'f item option" where
  "get_item tbl pk rk = find (has_key pk rk) tbl"

definition scan :: "'f table \<Rightarrow> 'f item list" where
  "scan tbl = tbl"

text \<open>
  The requests that change the table, and a batch of them. The spec gives a batch no
  order. When no two of its requests address the same row, the order makes no
  difference and the batch carries out every request. What the store does with a batch
  in which two requests address the same row the spec does not say: it is the
  parameter \<open>collide\<close>, a function of the table and the batch.
\<close>

datatype 'f request = PutItem "'f item" | DeleteItem string string

fun request_key :: "'f request \<Rightarrow> string \<times> string" where
  "request_key (PutItem it) = (partition_key it, row_key it)"
| "request_key (DeleteItem pk rk) = (pk, rk)"

fun apply_request :: "'f table \<Rightarrow> 'f request \<Rightarrow> 'f table" where
  "apply_request tbl (PutItem it) = put_item tbl it"
| "apply_request tbl (DeleteItem pk rk) = delete_item tbl pk rk"

definition batch_write ::
  "('f table \<Rightarrow> 'f request list \<Rightarrow> (error + unit) \<times> 'f table) \<Rightarrow> 'f table \<Rightarrow> 'f request list
    \<Rightarrow> (error + unit) \<times> 'f table"
where
  "batch_write collide tbl batch =
     (if distinct (map request_key batch) then (Inr (), foldl apply_request tbl batch)
      else collide tbl batch)"

subsection \<open>Messages\<close>

text \<open>
  Modelled from the spec: \<^verbatim>\<open>ChatMessage\<close> belongs to the core package, which is not
  among the sources. The spec has a message as a record of fields that the codec treats
  as a plain object, so a message is the dictionary of its fields, and
  \<^verbatim>\<open>message.dict()\<close> and \<^verbatim>\<open>ChatMessage.parse_obj\<close> carry it over unchanged.
\<close>

type_synonym 'f chat_message = "'f pydict"

definition message_dict :: "'f chat_message \<Rightarrow> 'f pydict" where
  "message_dict m = m"

definition parse_obj :: "'f pydict \<Rightarrow> 'f chat_message" where
  "parse_obj d = d"

subsection \<open>Row keys\<close>

text \<open>
  \<^verbatim>\<open>f"{idx:010}"\<close>: the decimal digits of \<open>idx\<close>, filled with zeros behind the sign to
  a width of ten characters, and longer when the number needs more.
\<close>

definition zfill :: "nat \<Rightarrow> string \<Rightarrow> string" where
  "zfill w s = replicate (w - length s) CHR ''0'' @ s"

definition to_row_key :: "int \<Rightarrow> string" where
  "to_row_key idx =
     (if idx < 0 then CHR ''-'' # zfill 9 (digits (nat (- idx))) else zfill 10 (digits (nat idx)))"

subsection \<open>The operations of AWSDynamoChatStore\<close>

text \<open>
  Every operation takes the table and, when it writes, returns the table it leaves
  behind next to its outcome: \<open>Inr ()\<close> for a normal return, \<open>Inl e\<close> for the
  exception \<open>e\<close>.

  \<^verbatim>\<open>set_messages\<close> and \<^verbatim>\<open>delete_messages\<close> hand their requests to one batch
  writer, which sends them when the \<^verbatim>\<open>with\<close> block is left, also when an exception
  leaves it. \<open>set_messages_batch\<close> is what \<^verbatim>\<open>set_messages\<close> puts into the batch: a
  delete for every item of the response, then a put for every message, up to the first
  message that \<^verbatim>\<open>serialize\<close> rejects; with it comes that exception, if any.
\<close>

fun put_requests ::
  "('f \<Rightarrow> string) \<Rightarrow> string \<Rightarrow> int \<Rightarrow> 'f chat_message list \<Rightarrow> error option \<times> 'f request list"
where
  "put_requests fstr key idx [] = (None, [])"
| "put_requests fstr key idx (message # messages) =
     (case serialize fstr (message_dict message) of
        Inl e \<Rightarrow> (Some e, [])
      | Inr payload \<Rightarrow>
          (case put_requests fstr key (idx + 1) messages of
             (raised, batch) \<Rightarrow> (raised, PutItem (Item key (to_row_key idx) payload) # batch)))"

definition set_messages_batch ::
  "('f \<Rightarrow> string) \<Rightarrow> 'f table \<Rightarrow> string \<Rightarrow> 'f chat_message list \<Rightarrow> error option \<times> 'f request list"
where
  "set_messages_batch fstr tbl key messages =
     (let response = query tbl key in
      case put_requests fstr key 0 messages of
        (raised, puts) \<Rightarrow> (raised, map (\<lambda>item. DeleteItem key (row_key item)) response @ puts))"


fun parse_items :: "(string \<Rightarrow> 'f option) \<Rightarrow> 'f item list \<Rightarrow> error + 'f chat_message list" where
  "parse_items fparse [] = Inr []"
| "parse_items fparse (it # items) =
     (case deserialize fparse (msg it) of
        Inl e \<Rightarrow> Inl e
      | Inr d \<Rightarrow>
          (case parse_items fparse items of
             Inl e \<Rightarrow> Inl e
           | Inr ms \<Rightarrow> Inr (parse_obj d # ms)))"

definition get_messages ::
  "(string \<Rightarrow> 'f option) \<Rightarrow> 'f table \<Rightarrow> string \<Rightarrow> error + 'f chat_message list"
where
  "get_messages fparse tbl key = parse_items fparse (query tbl key)"

definition add_message ::
  "('f \<Rightarrow> string) \<Rightarrow> (string \<Rightarrow> 'f option) \<Rightarrow> 'f table \<Rightarrow> string \<Rightarrow> 'f chat_message \<Rightarrow> int option
    \<Rightarrow> (error + unit) \<times> 'f table"
where
  "add_message fstr fparse tbl key message idx =
     (case get_messages fparse tbl key of
        Inl e \<Rightarrow> (Inl e, tbl)
      | Inr ms \<Rightarrow>
          (let next_index = int (length ms) in
           case idx of
             Some i \<Rightarrow>
               if i > next_index then (Inl (IndexOutOfBounds i), tbl)
               else (case serialize fstr (message_dict message) of
                       Inl e \<Rightarrow> (Inl e, tbl)
                     | Inr payload \<Rightarrow> (Inr (), put_item tbl (Item key (to_row_key i) payload)))
           | None \<Rightarrow>
               (case serialize fstr (message_dict message) of
                  Inl e \<Rightarrow> (Inl e, tbl)
                | Inr payload \<Rightarrow>
                    (Inr (), put_item tbl (Item key (to_row_key next_index) payload)))))"

definition delete_messages ::
  "('f table \<Rightarrow> 'f request list \<Rightarrow> (error + unit) \<times> 'f table) \<Rightarrow> 'f table \<Rightarrow> string
    \<Rightarrow> (error + unit) \<times> 'f table"
where
  "delete_messages collide tbl key =
     (let response = query tbl key
      in batch_write collide tbl (map (\<lambda>item. DeleteItem key (row_key item)) response))"

definition delete_message :: "'f table \<Rightarrow> string \<Rightarrow> int \<Rightarrow> (error + unit) \<times> 'f table" where
  "delete_message tbl key idx = (Inr (), delete_item tbl key (to_row_key idx))"

text \<open>
  \<open>delete_last_message_requests\<close> is the list of requests that
  \<^verbatim>\<open>delete_last_message\<close> sends to the table, or the exception that reading the
  history raises; \<^verbatim>\<open>delete_last_message\<close> carries them out.
\<close>

definition delete_last_message_requests ::
  "(string \<Rightarrow> 'f option) \<Rightarrow> 'f table \<Rightarrow> string \<Rightarrow> error + 'f request list"
where
  "delete_last_message_requests fparse tbl key =
     (case get_messages fparse tbl key of
        Inl e \<Rightarrow> Inl e
      | Inr ms \<Rightarrow>
          (let last_row_key = to_row_key (int (length ms) - 1)
           in Inr [DeleteItem key last_row_key]))"

definition delete_last_message ::
  "(string \<Rightarrow> 'f option) \<Rightarrow> 'f table \<Rightarrow> string \<Rightarrow> (error + unit) \<times> 'f table"
where
  "delete_last_message fparse tbl key =
     (case delete_last_message_requests fparse tbl key of
        Inl e \<Rightarrow> (Inl e, tbl)
      | Inr requests \<Rightarrow> (Inr (), foldl apply_request tbl requests))"

definition get_keys :: "'f table \<Rightarrow> string set" where
  "get_keys tbl = set (map partition_key (scan tbl))"

section \<open>Notions used in the statements\<close>

text \<open>
  A value that \<^verbatim>\<open>serialize\<close> has no tag for: it is no string, int, float, bool, dict
  or list, and it is not \<^verbatim>\<open>None\<close>.
\<close>

definition untagged :: "'f pyval \<Rightarrow> bool" where
  "untagged v =
     (\<not> isinstance_str v \<and> \<not> isinstance_int v \<and> \<not> isinstance_float v
      \<and> \<not> isinstance_bool v \<and> \<not> isinstance_dict v \<and> \<not> isinstance_list v
      \<and> \<not> is_None v)"

text \<open>
  The fields that \<^verbatim>\<open>serialize\<close> has no tag for, in the order in which it meets them:
  a field holding an object of another class, in the dictionary itself, in a dictionary
  under one of its fields, or in a dictionary that is an element of a list field. Each
  is given by its key and the name of its class. Objects that are elements of a list
  are not among them: the codec passes them on without looking.
\<close>

fun unsupported_fields :: "'f pydict \<Rightarrow> (string \<times> string) list"
  and unsupported_in_elems :: "'f pyval list \<Rightarrow> (string \<times> string) list"
where
  "unsupported_fields [] = []"
| "unsupported_fields ((key, PObj c) # rest) = (key, c) # unsupported_fields rest"
| "unsupported_fields ((key, PContainer c vs) # rest) = (key, c) # unsupported_fields rest"
| "unsupported_fields ((key, PDict d) # rest) = unsupported_fields d @ unsupported_fields rest"
| "unsupported_fields ((key, PList vs) # rest) = unsupported_in_elems vs @ unsupported_fields rest"
| "unsupported_fields ((key, _) # rest) = unsupported_fields rest"
| "unsupported_in_elems [] = []"
| "unsupported_in_elems (PDict d # vs) = unsupported_fields d @ unsupported_in_elems vs"
| "unsupported_in_elems (_ # vs) = unsupported_in_elems vs"

text \<open>
  What the spec says of the elements of a list field: an element that is a dictionary
  is encoded (decoded) by the codec itself, any other element is passed on unchanged.
\<close>

definition encoded_elem :: "('f \<Rightarrow> string) \<Rightarrow> 'f pyval \<Rightarrow> 'f pyval \<Rightarrow> bool" where
  "encoded_elem fstr v w =
     (if isinstance_dict v
      then isinstance_dict w \<and> serialize fstr (dict_items v) = Inr (dict_items w)
      else w = v)"

definition decoded_elem :: "(string \<Rightarrow> 'f option) \<Rightarrow> 'f pyval \<Rightarrow> 'f pyval \<Rightarrow> bool" where
  "decoded_elem fparse w v =
     (if isinstance_dict w
      then isinstance_dict v \<and> deserialize fparse (dict_items w) = Inr (dict_items v)
      else v = w)"





text \<open>
  Dictionaries built from strings, integers that are not negative, floats, \<^verbatim>\<open>None\<close>,
  dictionaries of this kind and lists whose dictionaries are of this kind. The printing
  and parsing of floats fit together when a printed float is no string of digits and
  parses to the float it came from.
\<close>

fun roundtrip_safe :: "'f pydict \<Rightarrow> bool"
  and roundtrip_safe_elems :: "'f pyval list \<Rightarrow> bool"
where
  "roundtrip_safe [] = True"
| "roundtrip_safe ((key, PStr s) # rest) = roundtrip_safe rest"
| "roundtrip_safe ((key, PInt i) # rest) = (0 \<le> i \<and> roundtrip_safe rest)"
| "roundtrip_safe ((key, PFloat x) # rest) = roundtrip_safe rest"
| "roundtrip_safe ((key, PNone) # rest) = roundtrip_safe rest"
| "roundtrip_safe ((key, PDict d) # rest) = (roundtrip_safe d \<and> roundtrip_safe rest)"
| "roundtrip_safe ((key, PList vs) # rest) = (roundtrip_safe_elems vs \<and> roundtrip_safe rest)"
| "roundtrip_safe ((key, PBool b) # rest) = False"
| "roundtrip_safe ((key, PObj c) # rest) = False"
| "roundtrip_safe ((key, PContainer c vs) # rest) = False"
| "roundtrip_safe_elems [] = True"
| "roundtrip_safe_elems (PDict d # vs) = (roundtrip_safe d \<and> roundtrip_safe_elems vs)"
| "roundtrip_safe_elems (_ # vs) = roundtrip_safe_elems vs"

definition float_faithful :: "('f \<Rightarrow> string) \<Rightarrow> (string \<Rightarrow> 'f option) \<Rightarrow> bool" where
  "float_faithful fstr fparse = (\<forall>x. \<not> isdigit (fstr x) \<and> fparse (fstr x) = Some x)"

text \<open>
  Data for the examples: messages, a table that holds two histories, and a table in
  which the history of \<^verbatim>\<open>conv1\<close> is one item at index 5.
\<close>

definition msg_a :: "'f chat_message" where
  "msg_a = [(''role'', PStr ''user''), (''content'', PStr ''hello'')]"


definition msg_bytes :: "'f chat_message" where
  "msg_bytes = [(''role'', PStr ''user''), (''content'', PObj ''bytes'')]"

definition table_0 :: "'f table" where
  "table_0 =
     [Item ''conv1'' ''0000000001'' [(''content'', PDict [(''S'', PStr ''b'')])],
      Item ''other'' ''0000000000'' [(''content'', PDict [(''S'', PStr ''x'')])],
      Item ''conv1'' ''0000000000'' [(''content'', PDict [(''S'', PStr ''a'')])]]"


section \<open>The codec on one item\<close>

text \<open>
  The two loops, unfolded for an item of each kind. From here on these equations
  stand in for the defining ones.
\<close>

lemma serialize_Cons:
  "serialize fstr ((key, PStr s) # rest) =
     (case serialize fstr rest of
        Inl e \<Rightarrow> Inl e | Inr r \<Rightarrow> Inr ((key, PDict [(''S'', PStr s)]) # r))"
  "serialize fstr ((key, PInt i) # rest) =
     (case serialize fstr rest of
        Inl e \<Rightarrow> Inl e | Inr r \<Rightarrow> Inr ((key, PDict [(''N'', PStr (str_int i))]) # r))"
  "serialize fstr ((key, PBool b) # rest) =
     (case serialize fstr rest of
        Inl e \<Rightarrow> Inl e
      | Inr r \<Rightarrow> Inr ((key, PDict [(''N'', PStr (if b then ''True'' else ''False''))]) # r))"
  "serialize fstr ((key, PFloat x) # rest) =
     (case serialize fstr rest of
        Inl e \<Rightarrow> Inl e | Inr r \<Rightarrow> Inr ((key, PDict [(''N'', PStr (fstr x))]) # r))"
  "serialize fstr ((key, PNone) # rest) =
     (case serialize fstr rest of
        Inl e \<Rightarrow> Inl e | Inr r \<Rightarrow> Inr ((key, PDict [(''NULL'', PBool True)]) # r))"
  "serialize fstr ((key, PObj c) # rest) = Inl (UnsupportedType c key)"
  "serialize fstr ((key, PContainer c vs) # rest) = Inl (UnsupportedType c key)"
  "serialize fstr ((key, PDict d) # rest) =
     (case serialize fstr d of
        Inl e \<Rightarrow> Inl e
      | Inr m \<Rightarrow>
          (case serialize fstr rest of
             Inl e \<Rightarrow> Inl e | Inr r \<Rightarrow> Inr ((key, PDict [(''M'', PDict m)]) # r)))"
  "serialize fstr ((key, PList vs) # rest) =
     (case serialize_elems fstr vs of
        Inl e \<Rightarrow> Inl e
      | Inr l \<Rightarrow>
          (case serialize fstr rest of
             Inl e \<Rightarrow> Inl e | Inr r \<Rightarrow> Inr ((key, PDict [(''L'', PList l)]) # r)))"
  by (simp_all split: sum.splits)

lemma serialize_elems_Cons:
  "serialize_elems fstr (PDict d # vs) =
     (case serialize fstr d of
        Inl e \<Rightarrow> Inl e
      | Inr m \<Rightarrow>
          (case serialize_elems fstr vs of Inl e \<Rightarrow> Inl e | Inr ws \<Rightarrow> Inr (PDict m # ws)))"
  "\<not> isinstance_dict v \<Longrightarrow>
   serialize_elems fstr (v # vs) =
     (case serialize_elems fstr vs of Inl e \<Rightarrow> Inl e | Inr ws \<Rightarrow> Inr (v # ws))"
  by (simp_all split: sum.splits)

declare serialize.simps(2) [simp del] serialize_elems.simps(2) [simp del]

lemma deserialize_Cons:
  "deserialize fparse ((key, PDict [(''S'', v)]) # rest) =
     (case deserialize fparse rest of Inl e \<Rightarrow> Inl e | Inr r \<Rightarrow> Inr ((key, v) # r))"
  "deserialize fparse ((key, PDict [(''N'', t)]) # rest) =
     (case parse_number fparse t of
        Inl e \<Rightarrow> Inl e
      | Inr v \<Rightarrow>
          (case deserialize fparse rest of Inl e \<Rightarrow> Inl e | Inr r \<Rightarrow> Inr ((key, v) # r)))"
  "deserialize fparse ((key, PDict [(''BOOL'', v)]) # rest) =
     (case deserialize fparse rest of Inl e \<Rightarrow> Inl e | Inr r \<Rightarrow> Inr ((key, v) # r))"
  "deserialize fparse ((key, PDict [(''M'', PDict m)]) # rest) =
     (case deserialize fparse m of
        Inl e \<Rightarrow> Inl e
      | Inr d \<Rightarrow>
          (case deserialize fparse rest of
             Inl e \<Rightarrow> Inl e | Inr r \<Rightarrow> Inr ((key, PDict d) # r)))"
  "deserialize fparse ((key, PDict [(''L'', PList l)]) # rest) =
     (case deserialize_elems fparse l of
        Inl e \<Rightarrow> Inl e
      | Inr vs \<Rightarrow>
          (case deserialize fparse rest of
             Inl e \<Rightarrow> Inl e | Inr r \<Rightarrow> Inr ((key, PList vs) # r)))"
  "deserialize fparse ((key, PDict [(''NULL'', v)]) # rest) =
     (case deserialize fparse rest of Inl e \<Rightarrow> Inl e | Inr r \<Rightarrow> Inr ((key, PNone) # r))"
  by (simp_all split: sum.splits)

lemma deserialize_elems_Cons:
  "deserialize_elems fparse (PDict d # vs) =
     (case deserialize fparse d of
        Inl e \<Rightarrow> Inl e
      | Inr m \<Rightarrow>
          (case deserialize_elems fparse vs of Inl e \<Rightarrow> Inl e | Inr ws \<Rightarrow> Inr (PDict m # ws)))"
  "\<not> isinstance_dict v \<Longrightarrow>
   deserialize_elems fparse (v # vs) =
     (case deserialize_elems fparse vs of Inl e \<Rightarrow> Inl e | Inr ws \<Rightarrow> Inr (v # ws))"
  by (simp_all split: sum.splits)

declare deserialize.simps(2) [simp del] deserialize_elems.simps(2) [simp del]

lemma isinstance_dict_conv: "isinstance_dict v = (\<exists>d. v = PDict d)"
  by (cases v) simp_all

lemma digit_char_simps:
  "digit_char 0 = CHR ''0''" "digit_char 1 = CHR ''1''" "digit_char 2 = CHR ''2''"
  "digit_char 3 = CHR ''3''" "digit_char 4 = CHR ''4''" "digit_char 5 = CHR ''5''"
  "digit_char 6 = CHR ''6''" "digit_char 7 = CHR ''7''" "digit_char 8 = CHR ''8''"
  "digit_char 9 = CHR ''9''"
  by code_simp+

lemma str_int_examples: "str_int (- 5) = ''-5''" "str_int 3 = ''3''"
  by code_simp+

lemma to_row_key_examples:
  "to_row_key (- 1) = ''-000000001''" "to_row_key 0 = ''0000000000''"
  "to_row_key 1 = ''0000000001''" "to_row_key 2 = ''0000000002''"
  by code_simp+

section \<open>Booleans and negative integers\<close>

text \<open>
  Claim C2. A field whose value is a boolean is to be encoded with the tag
  \<^verbatim>\<open>BOOL\<close>. The test for \<^verbatim>\<open>int\<close> stands before the test for \<^verbatim>\<open>bool\<close>, and a
  boolean is an \<^verbatim>\<open>int\<close>: \<^verbatim>\<open>serialize\<close> encodes every boolean field with the tag
  \<^verbatim>\<open>N\<close>, carrying the text \<^verbatim>\<open>True\<close> or \<^verbatim>\<open>False\<close>. The branch for \<^verbatim>\<open>bool\<close> is never
  reached.
\<close>

theorem serialize_bool_field:
  "serialize fstr [(key, PBool b)] =
     Inr [(key, PDict [(''N'', PStr (if b then ''True'' else ''False''))])]"
  by (simp add: serialize_Cons)

text \<open>
  No item of a result of \<^verbatim>\<open>serialize\<close> carries the tag \<^verbatim>\<open>BOOL\<close>, whatever the
  dictionary: for every boolean field the test for \<^verbatim>\<open>int\<close> wins.
\<close>

lemma serialize_never_BOOL:
  "serialize fstr d = Inr r \<Longrightarrow> (k, PDict [(''BOOL'', v)]) \<notin> set r"
proof (induction d arbitrary: r)
  case Nil
  then show ?case by simp
next
  case (Cons a d)
  obtain key val where a: "a = (key, val)" by (cases a)
  with Cons show ?case
    by (cases val) (auto simp: serialize_Cons split: sum.splits if_splits)
qed

text \<open>
  Claim C3. The text under \<^verbatim>\<open>N\<close> is to be read as an integer when it is the decimal
  form of an integer, negative ones included. \<^verbatim>\<open>deserialize\<close> asks \<^verbatim>\<open>isdigit\<close>, which
  the sign fails: the text \<^verbatim>\<open>-5\<close> goes to \<^verbatim>\<open>float\<close>, and the result is a float or
  the ValueError of \<^verbatim>\<open>float\<close>, never the integer.
\<close>

theorem deserialize_negative_number:
  "deserialize fparse [(key, PDict [(''N'', PStr ''-5'')])] =
     (case fparse ''-5'' of None \<Rightarrow> Inl ValueError | Some x \<Rightarrow> Inr [(key, PFloat x)])"
  by (simp add: deserialize_Cons isdigit_def isdigit_char_def py_float_def split: option.splits)

text \<open>
  Claim C1. \<^verbatim>\<open>deserialize(serialize(v))\<close> is to give \<open>v\<close> back, value and type. Two
  inputs where it does not: the integer \<open>-5\<close> is encoded as the text \<^verbatim>\<open>-5\<close> and does
  not come back as an integer; the boolean \<^verbatim>\<open>True\<close> is encoded as a number with the
  text \<^verbatim>\<open>True\<close> and does not come back as a boolean.
\<close>

theorem roundtrip_failures:
  "serialize fstr [(''n'', PInt (- 5))] = Inr [(''n'', PDict [(''N'', PStr ''-5'')])]
   \<and> deserialize fparse [(''n'', PDict [(''N'', PStr ''-5'')])] \<noteq> Inr [(''n'', PInt (- 5))]
   \<and> serialize fstr [(''b'', PBool True)] = Inr [(''b'', PDict [(''N'', PStr ''True'')])]
   \<and> deserialize fparse [(''b'', PDict [(''N'', PStr ''True'')])] \<noteq> Inr [(''b'', PBool True)]"
  by (simp add: serialize_Cons deserialize_Cons str_int_examples isdigit_def isdigit_char_def
      py_float_def split: option.splits)

subsection \<open>Where the codec does give the value back\<close>

lemma of_char_digit_char: "d < 10 \<Longrightarrow> of_char (digit_char d) = 48 + d"
  by (simp add: digit_char_def)

lemma isdecimal_digit_char: "d < 10 \<Longrightarrow> isdecimal_char (digit_char d)"
  by (simp add: isdecimal_char_def of_char_digit_char)

lemma digits_decimal: "list_all isdecimal_char (digits n)"
proof (induction n rule: digits.induct)
  case (1 n)
  show ?case
  proof (cases "n < 10")
    case True
    then show ?thesis by (simp add: digits.simps isdecimal_digit_char)
  next
    case False
    with 1 show ?thesis by (subst digits.simps) (simp add: isdecimal_digit_char)
  qed
qed

lemma digits_not_Nil: "digits n \<noteq> []"
  by (subst digits.simps) simp

lemma digits_value_snoc:
  "digits_value (s @ [c]) = 10 * digits_value s + (of_char c - 48)"
  by (simp add: digits_value_def)

lemma digits_value_digits: "digits_value (digits n) = n"
proof (induction n rule: digits.induct)
  case (1 n)
  show ?case
  proof (cases "n < 10")
    case True
    then show ?thesis by (simp add: digits.simps digits_value_def of_char_digit_char)
  next
    case False
    with 1 have "digits_value (digits (n div 10)) = n div 10" by simp
    with False show ?thesis
      by (subst digits.simps) (simp add: digits_value_snoc of_char_digit_char)
  qed
qed

lemma isdigit_digits: "isdigit (digits n)"
proof -
  have "isdecimal_char c \<Longrightarrow> isdigit_char c" for c
    by (simp add: isdecimal_char_def isdigit_char_def Let_def)
  then have "list_all isdigit_char (digits n)"
    using digits_decimal [of n] by (simp add: list_all_iff)
  then show ?thesis by (simp add: isdigit_def digits_not_Nil)
qed

lemma parse_number_digits: "parse_number fparse (PStr (digits n)) = Inr (PInt (int n))"
  by (simp add: isdigit_digits py_int_def digits_decimal digits_value_digits digits_not_Nil)

lemma parse_number_str_int:
  "0 \<le> i \<Longrightarrow> parse_number fparse (PStr (str_int i)) = Inr (PInt i)"
  by (simp add: str_int_def parse_number_digits del: parse_number.simps)

lemma parse_number_float:
  "float_faithful fstr fparse \<Longrightarrow> parse_number fparse (PStr (fstr x)) = Inr (PFloat x)"
  by (simp add: float_faithful_def py_float_def)

lemma roundtrip_safe_roundtrip:
  assumes "float_faithful fstr fparse"
  shows "roundtrip_safe d \<Longrightarrow>
           \<exists>p. serialize fstr d = Inr p \<and> deserialize fparse p = Inr d"
    and "roundtrip_safe_elems vs \<Longrightarrow>
           \<exists>ws. serialize_elems fstr vs = Inr ws \<and> deserialize_elems fparse ws = Inr vs"
proof (induction d and vs rule: roundtrip_safe_roundtrip_safe_elems.induct)
qed (auto simp: serialize_Cons deserialize_Cons serialize_elems_Cons deserialize_elems_Cons
       parse_number_str_int parse_number_float [OF assms] simp del: parse_number.simps)

section \<open>Values without a tag\<close>

lemma serialize_error_kind:
  "serialize fstr d = Inl e \<Longrightarrow> \<exists>t k. e = UnsupportedType t k"
  "serialize_elems fstr vs = Inl e \<Longrightarrow> \<exists>t k. e = UnsupportedType t k"
  by (induction fstr d and fstr vs arbitrary: e and e rule: serialize_serialize_elems.induct)
     (auto simp: serialize.simps(2) serialize_elems.simps(2) split: if_splits sum.splits)

lemma serialize_unsupported:
  "unsupported_fields d = (k, t) # more \<Longrightarrow> serialize fstr d = Inl (UnsupportedType t k)"
  "unsupported_fields d = [] \<Longrightarrow> \<exists>r. serialize fstr d = Inr r"
  "unsupported_in_elems vs = (k, t) # more \<Longrightarrow> serialize_elems fstr vs = Inl (UnsupportedType t k)"
  "unsupported_in_elems vs = [] \<Longrightarrow> \<exists>r. serialize_elems fstr vs = Inr r"
proof (induction d and vs arbitrary: k t more and k t more
    rule: unsupported_fields_unsupported_in_elems.induct)
qed (auto simp: serialize_Cons serialize_elems_Cons append_eq_Cons_conv split: sum.splits)

lemma unsupported_fields_append:
  "unsupported_fields (xs @ ys) = unsupported_fields xs @ unsupported_fields ys"
proof (induction xs)
  case Nil
  show ?case by simp
next
  case (Cons a xs)
  obtain k v where "a = (k, v)" by (cases a)
  with Cons show ?case by (cases v) simp_all
qed

lemma untagged_cases:
  "untagged v = ((\<exists>c. v = PObj c) \<or> (\<exists>c vs. v = PContainer c vs))"
  by (cases v) (simp_all add: untagged_def)

lemma unsupported_fields_member:
  "(key, v) \<in> set d \<Longrightarrow> untagged v \<Longrightarrow> (key, type_name v) \<in> set (unsupported_fields d)"
proof (induction d)
  case Nil
  then show ?case by simp
next
  case (Cons a d)
  obtain k w where "a = (k, w)" by (cases a)
  with Cons show ?case by (cases w) (auto simp: untagged_cases)
qed

lemma unsupported_fields_untagged:
  "untagged v \<Longrightarrow> unsupported_fields ((key, v) # rest) = (key, type_name v) # unsupported_fields rest"
  by (auto simp: untagged_cases)

text \<open>
  Claim C4. A dictionary with a field whose value has no tag (a value that is no
  string, int, float, bool, dict, list or None) makes \<^verbatim>\<open>serialize\<close> fail: it returns
  no result, and the error is the unsupported-type error for a field without a tag,
  naming its key and the class of its value. It is the first such field that
  \<^verbatim>\<open>serialize\<close> meets; when no field without a tag comes before the given one, the
  error names the given field and the class of its value.
\<close>

theorem serialize_rejects_untagged:
  assumes "(key, v) \<in> set d" and "untagged v"
  shows "(\<forall>r. serialize fstr d \<noteq> Inr r)
    \<and> (\<exists>k t. serialize fstr d = Inl (UnsupportedType t k) \<and> (k, t) \<in> set (unsupported_fields d))
    \<and> (unsupported_fields (takeWhile (\<lambda>kv. kv \<noteq> (key, v)) d) = []
         \<longrightarrow> serialize fstr d = Inl (UnsupportedType (type_name v) key))"
proof -
  from assms have "(key, type_name v) \<in> set (unsupported_fields d)"
    by (rule unsupported_fields_member)
  then obtain k t more where u: "unsupported_fields d = (k, t) # more"
    by (cases "unsupported_fields d") auto
  then have e: "serialize fstr d = Inl (UnsupportedType t k)"
    by (rule serialize_unsupported(1))
  let ?pre = "takeWhile (\<lambda>kv. kv \<noteq> (key, v)) d"
  from assms(1) obtain post where "dropWhile (\<lambda>kv. kv \<noteq> (key, v)) d = (key, v) # post"
    by (metis (mono_tags, lifting) dropWhile_eq_Nil_conv hd_dropWhile list.collapse)
  then have split: "d = ?pre @ (key, v) # post"
    by (metis takeWhile_dropWhile_id)
  have "serialize fstr d = Inl (UnsupportedType (type_name v) key)" if "unsupported_fields ?pre = []"
  proof -
    have "unsupported_fields d = (key, type_name v) # unsupported_fields post"
      by (subst split) (simp add: unsupported_fields_append that unsupported_fields_untagged [OF assms(2)])
    then show ?thesis by (rule serialize_unsupported(1))
  qed
  with e u show ?thesis by auto
qed

theorem serialize_rejects_untagged_witness:
  "\<forall>fstr :: 'f \<Rightarrow> string.
     serialize fstr msg_bytes = Inl (UnsupportedType ''bytes'' ''content'')
     \<and> serialize fstr [(''role'', PStr ''user''), (''content'', PContainer ''tuple'' [PInt 1])]
         = Inl (UnsupportedType ''tuple'' ''content'')"
proof (intro allI conjI)
  fix fstr :: "'f \<Rightarrow> string"
  have "(''content'', PObj ''bytes'') \<in> set (msg_bytes :: 'f chat_message)"
    and "untagged (PObj ''bytes'' :: 'f pyval)"
    by (simp_all add: msg_bytes_def untagged_def)
  from serialize_rejects_untagged [OF this, of fstr]
  show "serialize fstr msg_bytes = Inl (UnsupportedType ''bytes'' ''content'')"
    by (simp add: msg_bytes_def)
  let ?d = "[(''role'', PStr ''user''), (''content'', PContainer ''tuple'' [PInt 1])] :: 'f pydict"
  have "(''content'', PContainer ''tuple'' [PInt 1]) \<in> set ?d"
    and "untagged (PContainer ''tuple'' [PInt 1] :: 'f pyval)"
    by (simp_all add: untagged_def)
  from serialize_rejects_untagged [OF this, of fstr]
  show "serialize fstr ?d = Inl (UnsupportedType ''tuple'' ''content'')"
    by simp
qed

section \<open>List fields\<close>

lemma encoded_elem_simps:
  "encoded_elem fstr (PDict d) w = (\<exists>m. w = PDict m \<and> serialize fstr d = Inr m)"
  "\<not> isinstance_dict v \<Longrightarrow> encoded_elem fstr v w = (w = v)"
  by (cases w; simp add: encoded_elem_def)+

lemma decoded_elem_simps:
  "decoded_elem fparse (PDict m) v = (\<exists>d. v = PDict d \<and> deserialize fparse m = Inr d)"
  "\<not> isinstance_dict w \<Longrightarrow> decoded_elem fparse w v = (v = w)"
  by (cases v; simp add: decoded_elem_def)+

lemma serialize_elems_Inr:
  "(serialize_elems fstr vs = Inr ws) = list_all2 (encoded_elem fstr) vs ws"
proof (induction vs arbitrary: ws)
  case Nil
  show ?case by auto
next
  case (Cons v vs)
  show ?case
  proof (cases "isinstance_dict v")
    case True
    then obtain d where "v = PDict d" by (auto simp: isinstance_dict_conv)
    then show ?thesis
      by (auto simp: serialize_elems_Cons encoded_elem_simps list_all2_Cons1 Cons.IH [symmetric]
          split: sum.splits)
  next
    case False
    then show ?thesis
      by (auto simp: serialize_elems_Cons encoded_elem_simps list_all2_Cons1 Cons.IH [symmetric]
          split: sum.splits)
  qed
qed

lemma deserialize_elems_Inr:
  "(deserialize_elems fparse ws = Inr vs) = list_all2 (decoded_elem fparse) ws vs"
proof (induction ws arbitrary: vs)
  case Nil
  show ?case by auto
next
  case (Cons w ws)
  show ?case
  proof (cases "isinstance_dict w")
    case True
    then obtain d where "w = PDict d" by (auto simp: isinstance_dict_conv)
    then show ?thesis
      by (auto simp: deserialize_elems_Cons decoded_elem_simps list_all2_Cons1 Cons.IH [symmetric]
          split: sum.splits)
  next
    case False
    then show ?thesis
      by (auto simp: deserialize_elems_Cons decoded_elem_simps list_all2_Cons1 Cons.IH [symmetric]
          split: sum.splits)
  qed
qed

lemma elems_roundtrip:
  assumes "\<forall>v \<in> set vs. isinstance_dict v \<longrightarrow>
    (\<exists>m. serialize fstr (dict_items v) = Inr m \<and> deserialize fparse m = Inr (dict_items v))"
  shows "\<exists>ws. serialize_elems fstr vs = Inr ws \<and> deserialize_elems fparse ws = Inr vs"
  using assms
proof (induction vs)
  case Nil
  show ?case by simp
next
  case (Cons v vs)
  then obtain ws where ws: "serialize_elems fstr vs = Inr ws" "deserialize_elems fparse ws = Inr vs"
    by auto
  show ?case
  proof (cases "isinstance_dict v")
    case True
    then obtain d where d: "v = PDict d" by (auto simp: isinstance_dict_conv)
    with Cons.prems obtain m where "serialize fstr d = Inr m" "deserialize fparse m = Inr d"
      by auto
    with ws d show ?thesis by (simp add: serialize_elems_Cons deserialize_elems_Cons)
  next
    case False
    with ws show ?thesis by (simp add: serialize_elems_Cons deserialize_elems_Cons)
  qed
qed

text \<open>
  Claim C8. For a field whose value is a list, \<^verbatim>\<open>serialize\<close> returns a result exactly
  when it can encode every element that is a dictionary, and the result is the tag
  \<^verbatim>\<open>L\<close> over the list in which each dictionary is encoded by \<^verbatim>\<open>serialize\<close> and
  every other element stands unchanged. \<^verbatim>\<open>deserialize\<close> does the same in the other
  direction: dictionaries among the elements are decoded by \<^verbatim>\<open>deserialize\<close>, the other
  elements are passed through. It is the inverse: a list whose dictionaries come back
  from the codec comes back itself.
\<close>

theorem list_field_elementwise:
  "((serialize fstr [(key, PList vs)] = Inr r) =
      (\<exists>ws. r = [(key, PDict [(''L'', PList ws)])] \<and> list_all2 (encoded_elem fstr) vs ws))
   \<and> ((deserialize fparse [(key, PDict [(''L'', PList ws)])] = Inr r') =
      (\<exists>vs'. r' = [(key, PList vs')] \<and> list_all2 (decoded_elem fparse) ws vs'))
   \<and> ((\<forall>v \<in> set vs. isinstance_dict v \<longrightarrow>
          (\<exists>m. serialize fstr (dict_items v) = Inr m \<and> deserialize fparse m = Inr (dict_items v)))
        \<longrightarrow> (\<exists>r. serialize fstr [(key, PList vs)] = Inr r
                 \<and> deserialize fparse r = Inr [(key, PList vs)]))"
proof (intro conjI impI)
  show "(serialize fstr [(key, PList vs)] = Inr r) =
      (\<exists>ws. r = [(key, PDict [(''L'', PList ws)])] \<and> list_all2 (encoded_elem fstr) vs ws)"
    by (auto simp: serialize_Cons serialize_elems_Inr [symmetric] split: sum.splits)
  show "(deserialize fparse [(key, PDict [(''L'', PList ws)])] = Inr r') =
      (\<exists>vs'. r' = [(key, PList vs')] \<and> list_all2 (decoded_elem fparse) ws vs')"
    by (auto simp: deserialize_Cons deserialize_elems_Inr [symmetric] split: sum.splits)
next
  assume "\<forall>v \<in> set vs. isinstance_dict v \<longrightarrow>
          (\<exists>m. serialize fstr (dict_items v) = Inr m \<and> deserialize fparse m = Inr (dict_items v))"
  then obtain ws where "serialize_elems fstr vs = Inr ws" "deserialize_elems fparse ws = Inr vs"
    using elems_roundtrip by blast
  then show "\<exists>r. serialize fstr [(key, PList vs)] = Inr r
                 \<and> deserialize fparse r = Inr [(key, PList vs)]"
    by (simp add: serialize_Cons deserialize_Cons)
qed

theorem list_field_elementwise_witness:
  "\<forall>(fstr :: 'f \<Rightarrow> string) (fparse :: string \<Rightarrow> 'f option).
     serialize fstr [(''l'', PList [PInt 1, PDict [(''a'', PStr ''x'')], PBool True])] =
       Inr [(''l'', PDict [(''L'', PList [PInt 1, PDict [(''a'', PDict [(''S'', PStr ''x'')])], PBool True])])]
     \<and> deserialize fparse
         [(''l'', PDict [(''L'', PList [PInt 1, PDict [(''a'', PDict [(''S'', PStr ''x'')])], PBool True])])] =
       Inr [(''l'', PList [PInt 1, PDict [(''a'', PStr ''x'')], PBool True])]"
proof (intro allI)
  fix fstr :: "'f \<Rightarrow> string" and fparse :: "string \<Rightarrow> 'f option"
  let ?vs = "[PInt 1, PDict [(''a'', PStr ''x'')], PBool True] :: 'f pyval list"
  let ?ws = "[PInt 1, PDict [(''a'', PDict [(''S'', PStr ''x'')])], PBool True] :: 'f pyval list"
  have enc: "list_all2 (encoded_elem fstr) ?vs ?ws"
    by (simp add: encoded_elem_def serialize_Cons)
  have dec: "list_all2 (decoded_elem fparse) ?ws ?vs"
    by (simp add: decoded_elem_def deserialize_Cons)
  from list_field_elementwise
    [of fstr "''l''" ?vs "[(''l'', PDict [(''L'', PList ?ws)])]" fparse ?ws "[(''l'', PList ?vs)]"]
    enc dec
  show "serialize fstr [(''l'', PList ?vs)] = Inr [(''l'', PDict [(''L'', PList ?ws)])]
     \<and> deserialize fparse [(''l'', PDict [(''L'', PList ?ws)])] = Inr [(''l'', PList ?vs)]"
    by blast
qed

section \<open>Row keys are ordered as their indices\<close>

lemma digit_char_less: "a < 10 \<Longrightarrow> b < 10 \<Longrightarrow> (digit_char a < digit_char b) = (a < b)"
  by (simp add: less_char_def of_char_digit_char)

lemma length_digits: "0 < k \<Longrightarrow> n < 10 ^ k \<Longrightarrow> length (digits n) \<le> k"
proof (induction k arbitrary: n)
  case 0
  then show ?case by simp
next
  case (Suc k)
  show ?case
  proof (cases "n < 10")
    case True
    then show ?thesis by (simp add: digits.simps)
  next
    case False
    with Suc.prems have k: "0 < k" by (cases k) auto
    from Suc.prems have "n div 10 < 10 ^ k" by (simp add: less_mult_imp_div_less mult.commute)
    with Suc.IH k have "length (digits (n div 10)) \<le> k" by simp
    with False show ?thesis by (subst digits.simps) simp
  qed
qed

lemma zfill_step:
  assumes "0 < k" "n < 10 ^ Suc k"
  shows "zfill (Suc k) (digits n) = zfill k (digits (n div 10)) @ [digit_char (n mod 10)]"
proof (cases "n < 10")
  case True
  with assms show ?thesis
    by (cases k) (simp_all add: digits.simps zfill_def digit_char_simps replicate_append_same)
next
  case False
  from assms have "n div 10 < 10 ^ k" by (simp add: less_mult_imp_div_less mult.commute)
  with assms have "length (digits (n div 10)) \<le> k" by (simp add: length_digits)
  with False show ?thesis
    by (subst digits.simps) (simp add: zfill_def Suc_diff_le)
qed

lemma length_zfill_digits: "0 < k \<Longrightarrow> n < 10 ^ k \<Longrightarrow> length (zfill k (digits n)) = k"
  using length_digits [of k n] by (simp add: zfill_def)

lemma snoc_less_snoc:
  "length xs = length ys \<Longrightarrow> (xs @ [a] < ys @ [b]) = (xs < ys \<or> xs = ys \<and> a < (b::char))"
  by (induction xs ys rule: list_induct2) auto

lemma div_mod_less:
  assumes "(n::nat) < m"
  shows "n div 10 < m div 10 \<or> n div 10 = m div 10 \<and> n mod 10 < m mod 10"
proof -
  have le: "n div 10 \<le> m div 10" using assms by (simp add: div_le_mono)
  have "n mod 10 < m mod 10" if "n div 10 = m div 10"
  proof -
    have "n div 10 * 10 + n mod 10 < m div 10 * 10 + m mod 10"
      using assms by (simp only: div_mult_mod_eq)
    then show ?thesis unfolding that nat_add_left_cancel_less .
  qed
  with le show ?thesis by (cases "n div 10 = m div 10") auto
qed

lemma zfill_digits_less:
  "0 < k \<Longrightarrow> n < m \<Longrightarrow> m < 10 ^ k \<Longrightarrow> zfill k (digits n) < zfill k (digits m)"
proof (induction k arbitrary: n m)
  case 0
  then show ?case by simp
next
  case (Suc k)
  show ?case
  proof (cases "k = 0")
    case True
    with Suc.prems have "n < 10" "m < 10" by simp_all
    with True \<open>n < m\<close> show ?thesis
      by (simp add: digits.simps zfill_def digit_char_less)
  next
    case False
    then have k: "0 < k" by simp
    from Suc.prems have m: "m div 10 < 10 ^ k" and n: "n div 10 < 10 ^ k"
      by (simp_all add: less_mult_imp_div_less mult.commute)
    have len: "length (zfill k (digits (n div 10))) = length (zfill k (digits (m div 10)))"
      using k m n by (simp add: length_zfill_digits)
    have sn: "zfill (Suc k) (digits n) = zfill k (digits (n div 10)) @ [digit_char (n mod 10)]"
      using k Suc.prems by (intro zfill_step) simp_all
    have sm: "zfill (Suc k) (digits m) = zfill k (digits (m div 10)) @ [digit_char (m mod 10)]"
      using k Suc.prems by (intro zfill_step) simp_all
    from \<open>n < m\<close> consider "n div 10 < m div 10" | "n div 10 = m div 10" "n mod 10 < m mod 10"
      using div_mod_less by blast
    then have "zfill k (digits (n div 10)) < zfill k (digits (m div 10))
      \<or> zfill k (digits (n div 10)) = zfill k (digits (m div 10))
        \<and> digit_char (n mod 10) < digit_char (m mod 10)"
    proof cases
      case 1
      then show ?thesis using Suc.IH [OF k _ m] by blast
    next
      case 2
      then show ?thesis by (simp add: digit_char_less)
    qed
    then show ?thesis
      unfolding sn sm snoc_less_snoc [OF len] .
  qed
qed

lemma to_row_key_less:
  "0 \<le> i \<Longrightarrow> i < j \<Longrightarrow> j < 10 ^ 10 \<Longrightarrow> to_row_key i < to_row_key j"
proof -
  assume a: "0 \<le> i" "i < j" "j < 10 ^ 10"
  then have "nat i < nat j" "nat j < 10 ^ 10" by (simp_all add: nat_less_iff)
  then have "zfill 10 (digits (nat i)) < zfill 10 (digits (nat j))"
    by (intro zfill_digits_less) simp_all
  with a show ?thesis by (simp add: to_row_key_def)
qed

text \<open>
  Claim C6. For indices \<open>i < j\<close>, both at least 0 and below \<open>10 ^ 10\<close>, the row key of
  \<open>i\<close> is strictly less than the row key of \<open>j\<close> in the lexicographic order of
  strings: on this range the row keys are ten digits wide, and their order is the
  order of the indices.
\<close>

theorem to_row_key_strict_mono:
  "0 \<le> i \<Longrightarrow> i < j \<Longrightarrow> j < 10 ^ 10 \<Longrightarrow> to_row_key i < to_row_key j"
  by (rule to_row_key_less)

theorem to_row_key_strict_mono_witness:
  "(0::int) \<le> 3 \<and> (3::int) < 12 \<and> (12::int) < 10 ^ 10 \<and> to_row_key 3 < to_row_key 12"
  using to_row_key_strict_mono [of 3 12] by simp


section \<open>The table after an operation\<close>

lemma get_item_delete_item:
  "get_item (delete_item tbl pk rk) pk' rk' =
     (if pk' = pk \<and> rk' = rk then None else get_item tbl pk' rk')"
  by (induction tbl) (auto simp: get_item_def delete_item_def has_key_def)

lemma set_query: "set (query tbl key) = {it \<in> set tbl. partition_key it = key}"
  by (simp add: query_def)

lemma query_table_0:
  "query table_0 ''conv1'' =
     [Item ''conv1'' ''0000000000'' [(''content'', PDict [(''S'', PStr ''a'')])],
      Item ''conv1'' ''0000000001'' [(''content'', PDict [(''S'', PStr ''b'')])]]"
  "query table_0 ''conv9'' = []"
  by (simp_all add: query_def table_0_def)

lemma get_messages_table_0:
  "get_messages fparse table_0 ''conv1'' = Inr [[(''content'', PStr ''a'')], [(''content'', PStr ''b'')]]"
  "get_messages fparse table_0 ''conv9'' = Inr []"
  by (simp_all add: get_messages_def query_table_0 deserialize_Cons parse_obj_def)

text \<open>
  Claim C9. \<^verbatim>\<open>delete_message(key, idx)\<close> raises no error, whether or not an item is
  stored under the row key of \<open>idx\<close>. Afterwards no item is stored under that key and
  row key, and every other pair of key and row key holds what it held before: the table
  is the old one without that one item, and no item changes its row key.
\<close>

theorem delete_message_frame:
  "fst (delete_message tbl key idx) = Inr ()
   \<and> get_item (snd (delete_message tbl key idx)) key (to_row_key idx) = None
   \<and> (\<forall>pk rk. (pk, rk) \<noteq> (key, to_row_key idx) \<longrightarrow>
          get_item (snd (delete_message tbl key idx)) pk rk = get_item tbl pk rk)
   \<and> snd (delete_message tbl key idx) = filter (\<lambda>it. \<not> has_key key (to_row_key idx) it) tbl"
  by (simp add: delete_message_def get_item_delete_item) (simp add: delete_item_def)

theorem delete_message_frame_witness:
  "get_item (snd (delete_message (table_0 :: 'f table) ''conv1'' 0)) ''conv1'' ''0000000000'' = None
   \<and> get_item (snd (delete_message (table_0 :: 'f table) ''conv1'' 0)) ''conv1'' ''0000000001'' =
       Some (Item ''conv1'' ''0000000001'' [(''content'', PDict [(''S'', PStr ''b'')])])
   \<and> get_item (snd (delete_message (table_0 :: 'f table) ''conv1'' 0)) ''other'' ''0000000000'' =
       Some (Item ''other'' ''0000000000'' [(''content'', PDict [(''S'', PStr ''x'')])])
   \<and> snd (delete_message (table_0 :: 'f table) ''conv1'' 5) = table_0"
proof -
  let ?T = "table_0 :: 'f table"
  have a: "get_item ?T ''conv1'' ''0000000001'' =
       Some (Item ''conv1'' ''0000000001'' [(''content'', PDict [(''S'', PStr ''b'')])])"
    and b: "get_item ?T ''other'' ''0000000000'' =
       Some (Item ''other'' ''0000000000'' [(''content'', PDict [(''S'', PStr ''x'')])])"
    by (simp_all add: get_item_def table_0_def has_key_def)
  have k0: "to_row_key 0 = ''0000000000''" by (rule to_row_key_examples)
  have k5: "to_row_key 5 = ''0000000005''" by code_simp
  from delete_message_frame [of ?T "''conv1''" 0]
  have gone: "get_item (snd (delete_message ?T ''conv1'' 0)) ''conv1'' (to_row_key 0) = None"
    and others: "\<forall>pk rk. (pk, rk) \<noteq> (''conv1'', to_row_key 0) \<longrightarrow>
          get_item (snd (delete_message ?T ''conv1'' 0)) pk rk = get_item ?T pk rk"
    by blast+
  from others have
    "get_item (snd (delete_message ?T ''conv1'' 0)) ''conv1'' ''0000000001'' =
       get_item ?T ''conv1'' ''0000000001''"
    "get_item (snd (delete_message ?T ''conv1'' 0)) ''other'' ''0000000000'' =
       get_item ?T ''other'' ''0000000000''"
    by (simp_all add: k0)
  moreover from delete_message_frame [of ?T "''conv1''" 5]
  have "snd (delete_message ?T ''conv1'' 5) = filter (\<lambda>it. \<not> has_key ''conv1'' (to_row_key 5) it) ?T"
    by blast
  then have "snd (delete_message ?T ''conv1'' 5) = ?T"
    by (simp add: k5) (simp add: table_0_def has_key_def)
  ultimately show ?thesis using gone by (simp add: k0 a b)
qed

lemma parse_items_length: "parse_items fparse items = Inr ms \<Longrightarrow> length ms = length items"
  by (induction items arbitrary: ms) (auto split: sum.splits)

lemma query_Nil: "query tbl key = [] \<Longrightarrow> \<forall>it \<in> set tbl. partition_key it \<noteq> key"
proof -
  assume "query tbl key = []"
  then have "set (query tbl key) = {}" by simp
  then show ?thesis by (auto simp: set_query)
qed

lemma delete_item_absent:
  "\<forall>it \<in> set tbl. partition_key it \<noteq> key \<Longrightarrow> delete_item tbl key rk = tbl"
  by (induction tbl) (auto simp: delete_item_def has_key_def)

lemma get_item_absent:
  "\<forall>it \<in> set tbl. partition_key it \<noteq> key \<Longrightarrow> get_item tbl key rk = None"
  by (induction tbl) (auto simp: get_item_def has_key_def)

text \<open>
  Claim C10. When the history of \<open>key\<close> is empty, \<^verbatim>\<open>delete_last_message(key)\<close> raises
  no error. The row key it computes is that of index \<open>-1\<close>, the string
  \<^verbatim>\<open>-000000001\<close>; the requests it sends to the table are the one delete for this
  row key under \<open>key\<close>, and nothing is stored there, so the table stays as it was.
\<close>

theorem delete_last_message_empty:
  assumes "get_messages fparse tbl key = Inr []"
  shows "delete_last_message_requests fparse tbl key = Inr [DeleteItem key (to_row_key (- 1))]
    \<and> to_row_key (- 1) = ''-000000001''
    \<and> get_item tbl key (to_row_key (- 1)) = None
    \<and> delete_last_message fparse tbl key = (Inr (), tbl)"
proof -
  from assms have "query tbl key = []"
    unfolding get_messages_def by (auto dest: parse_items_length)
  then have absent: "\<forall>it \<in> set tbl. partition_key it \<noteq> key"
    by (rule query_Nil)
  from assms
  have reqs: "delete_last_message_requests fparse tbl key = Inr [DeleteItem key (to_row_key (- 1))]"
    by (simp add: delete_last_message_requests_def)
  with absent show ?thesis
    by (simp add: delete_last_message_def delete_item_absent get_item_absent to_row_key_examples)
qed

theorem delete_last_message_empty_witness:
  "\<forall>fparse :: string \<Rightarrow> 'f option.
     get_messages fparse table_0 ''conv9'' = Inr []
     \<and> delete_last_message_requests fparse table_0 ''conv9'' =
         Inr [DeleteItem ''conv9'' ''-000000001'']
     \<and> delete_last_message fparse table_0 ''conv9'' = (Inr (), table_0)"
proof
  fix fparse :: "string \<Rightarrow> 'f option"
  have h: "get_messages fparse table_0 ''conv9'' = Inr []"
    by (rule get_messages_table_0)
  note t = delete_last_message_empty [OF h]
  from t have 1: "delete_last_message_requests fparse table_0 ''conv9'' =
      Inr [DeleteItem ''conv9'' (to_row_key (- 1))]"
    by (rule conjunct1)
  from t have 2: "delete_last_message fparse table_0 ''conv9'' = (Inr (), table_0)"
    by (rule conjunct2 [OF conjunct2 [OF conjunct2]])
  from h 1 2 show "get_messages fparse table_0 ''conv9'' = Inr []
     \<and> delete_last_message_requests fparse table_0 ''conv9'' =
         Inr [DeleteItem ''conv9'' ''-000000001'']
     \<and> delete_last_message fparse table_0 ''conv9'' = (Inr (), table_0)"
    by (simp add: to_row_key_examples)
qed

text \<open>
  On a history that is not empty the request is the delete for the last index: the
  table of the examples holds two messages under \<^verbatim>\<open>conv1\<close>, and the row key is that
  of index 1.
\<close>

lemma delete_last_message_requests_example:
  "delete_last_message_requests fparse table_0 ''conv1'' =
     Inr [DeleteItem ''conv1'' ''0000000001'']"
  by (simp add: delete_last_message_requests_def get_messages_table_0 to_row_key_examples)

section \<open>Adding a message\<close>


text \<open>
  Claim C5, as stated, has the write succeed whenever the index is omitted. It does not
  when \<^verbatim>\<open>serialize\<close> rejects the message: the table is empty, the index is
  omitted, and \<^verbatim>\<open>add_message\<close> raises the unsupported-type error and writes nothing.
\<close>

theorem add_message_untagged_counterexample:
  "\<forall>(fstr :: 'f \<Rightarrow> string) (fparse :: string \<Rightarrow> 'f option).
     add_message fstr fparse [] ''conv1'' msg_bytes None =
       (Inl (UnsupportedType ''bytes'' ''content''), [])"
  by (simp add: add_message_def get_messages_def query_def message_dict_def msg_bytes_def
      serialize_Cons)

text \<open>
  Claim C5, amended. Let the history read for \<open>key\<close> have \<open>length ms\<close> messages.
  \<^verbatim>\<open>add_message\<close> fails with the index error exactly when an index is given and is
  greater than that length; the error carries the index and the table is left as it
  was. When the index is omitted, the message is written at the row key of that length,
  provided \<^verbatim>\<open>serialize\<close> accepts the message; otherwise the error of \<^verbatim>\<open>serialize\<close>
  is raised and nothing is written.
\<close>

theorem add_message_index_check:
  assumes "get_messages fparse tbl key = Inr ms"
  shows "((fst (add_message fstr fparse tbl key message idx) = Inl (IndexOutOfBounds i))
           = (idx = Some i \<and> int (length ms) < i))
    \<and> (idx = Some i \<and> int (length ms) < i \<longrightarrow>
          snd (add_message fstr fparse tbl key message idx) = tbl)
    \<and> add_message fstr fparse tbl key message None =
         (case serialize fstr (message_dict message) of
            Inl e \<Rightarrow> (Inl e, tbl)
          | Inr payload \<Rightarrow>
              (Inr (), put_item tbl (Item key (to_row_key (int (length ms))) payload)))"
  using assms
  by (auto simp: add_message_def Let_def split: option.splits sum.splits
      dest: serialize_error_kind)

theorem add_message_index_check_witness:
  "\<forall>(fstr :: 'f \<Rightarrow> string) (fparse :: string \<Rightarrow> 'f option).
     fst (add_message fstr fparse table_0 ''conv1'' msg_a (Some 5)) = Inl (IndexOutOfBounds 5)
     \<and> fst (add_message fstr fparse table_0 ''conv1'' msg_a (Some 2)) \<noteq> Inl (IndexOutOfBounds 2)
     \<and> add_message fstr fparse table_0 ''conv1'' msg_a None =
         (Inr (), put_item table_0
            (Item ''conv1'' ''0000000002''
               [(''role'', PDict [(''S'', PStr ''user'')]),
                (''content'', PDict [(''S'', PStr ''hello'')])]))"
proof (intro allI)
  fix fstr :: "'f \<Rightarrow> string" and fparse :: "string \<Rightarrow> 'f option"
  have h: "get_messages fparse table_0 ''conv1'' =
      Inr [[(''content'', PStr ''a'')], [(''content'', PStr ''b'')]]"
    by (rule get_messages_table_0)
  have s: "serialize fstr (message_dict msg_a) =
      Inr [(''role'', PDict [(''S'', PStr ''user'')]),
           (''content'', PDict [(''S'', PStr ''hello'')])]"
    by (simp add: message_dict_def msg_a_def serialize_Cons)
  from add_message_index_check [OF h, of fstr msg_a "Some 5" 5]
  have 1: "fst (add_message fstr fparse table_0 ''conv1'' msg_a (Some 5)) = Inl (IndexOutOfBounds 5)"
    by simp
  from add_message_index_check [OF h, of fstr msg_a "Some 2" 2]
  have 2: "fst (add_message fstr fparse table_0 ''conv1'' msg_a (Some 2)) \<noteq> Inl (IndexOutOfBounds 2)"
    by simp
  from add_message_index_check [OF h, of fstr msg_a None 0]
  have 3: "add_message fstr fparse table_0 ''conv1'' msg_a None =
         (Inr (), put_item table_0
            (Item ''conv1'' ''0000000002''
               [(''role'', PDict [(''S'', PStr ''user'')]),
                (''content'', PDict [(''S'', PStr ''hello'')])]))"
    by (simp add: s to_row_key_examples)
  from 1 2 3
  show "fst (add_message fstr fparse table_0 ''conv1'' msg_a (Some 5)) = Inl (IndexOutOfBounds 5)
     \<and> fst (add_message fstr fparse table_0 ''conv1'' msg_a (Some 2)) \<noteq> Inl (IndexOutOfBounds 2)
     \<and> add_message fstr fparse table_0 ''conv1'' msg_a None =
         (Inr (), put_item table_0
            (Item ''conv1'' ''0000000002''
               [(''role'', PDict [(''S'', PStr ''user'')]),
                (''content'', PDict [(''S'', PStr ''hello'')])]))"
    by (intro conjI)
qed

section \<open>Setting and reading a history\<close>

























text \<open>
  On a table that holds rows of the key, the batch of \<^verbatim>\<open>set_messages\<close> has a delete
  and a put for the same row: replacing the two messages of \<^verbatim>\<open>conv1\<close> by one sends
  the delete and the put of row \<^verbatim>\<open>0000000000\<close> in one batch, and the outcome is what
  the store makes of such a batch.
\<close>

lemma set_messages_batch_table_0:
  "set_messages_batch fstr table_0 ''conv1'' [msg_a] =
     (None,
      [DeleteItem ''conv1'' ''0000000000'', DeleteItem ''conv1'' ''0000000001'',
       PutItem (Item ''conv1'' ''0000000000''
         [(''role'', PDict [(''S'', PStr ''user'')]),
          (''content'', PDict [(''S'', PStr ''hello'')])])])"
  "\<not> distinct (map request_key (snd (set_messages_batch fstr table_0 ''conv1'' [msg_a])))"
  by (simp_all add: set_messages_batch_def query_table_0 message_dict_def msg_a_def
      serialize_Cons to_row_key_examples)











end
